theory Spec2Isabelle
  imports Main
begin

section \<open>JavaScript values\<close>

text \<open>
  The values that flow through \<^verbatim>\<open>src/lib/server.js\<close>. Objects are association lists from
  property names to values (a property that is not listed reads as \<open>Undefined\<close>). Numbers
  are the integers and \<open>NaN\<close>: the source only compares a number with 500 and tests its
  truthiness, where any other number behaves as a non-zero integer different from 500.
\<close>

datatype jsval =
    Undefined
  | Null
  | Bool bool
  | Num int
  | NaN
  | Str string
  | Arr "jsval list"
  | Obj "(string \<times> jsval) list"

text \<open>Everything that can be thrown or be the reason of a rejected promise.\<close>

datatype error = TypeError | Thrown jsval

text \<open>JavaScript's ToBoolean: the falsy values are undefined, null, false, 0, NaN and the empty string.\<close>

fun truthy :: "jsval \<Rightarrow> bool" where
  "truthy Undefined = False"
| "truthy Null = False"
| "truthy (Bool b) = b"
| "truthy (Num n) = (n \<noteq> 0)"
| "truthy NaN = False"
| "truthy (Str s) = (s \<noteq> [])"
| "truthy (Arr xs) = True"
| "truthy (Obj ps) = True"

fun nullish :: "jsval \<Rightarrow> bool" where
  "nullish Undefined = True"
| "nullish Null = True"
| "nullish v = False"

text \<open>The value of \<^verbatim>\<open>v.k\<close> when \<open>v\<close> is neither undefined nor null.\<close>

fun js_get :: "jsval \<Rightarrow> string \<Rightarrow> jsval" where
  "js_get (Obj ps) k = (case map_of ps k of None \<Rightarrow> Undefined | Some v \<Rightarrow> v)"
| "js_get v k = Undefined"

text \<open>The property read \<^verbatim>\<open>v.k\<close>: a TypeError on undefined and null.\<close>

definition getProp :: "jsval \<Rightarrow> string \<Rightarrow> error + jsval" where
  "getProp v k = (if nullish v then Inl TypeError else Inr (js_get v k))"

text \<open>\<^verbatim>\<open>Array.isArray\<close>.\<close>

fun isArray :: "jsval \<Rightarrow> bool" where
  "isArray (Arr xs) = True"
| "isArray v = False"

text \<open>Sequencing of computations that may throw.\<close>

definition bind_err :: "error + 'a \<Rightarrow> ('a \<Rightarrow> error + 'b) \<Rightarrow> error + 'b" where
  "bind_err m f = (case m of Inl e \<Rightarrow> Inl e | Inr x \<Rightarrow> f x)"

section \<open>The error normalizer: \<^verbatim>\<open>prettyPrintErrors\<close>\<close>

text \<open>
  A call \<^verbatim>\<open>request.log(tags, data)\<close> is a log record; what the hook hands to Hapi is either
  \<^verbatim>\<open>reply.continue()\<close> or \<^verbatim>\<open>reply(response).code(statusCode)\<close>.
\<close>

record log_record =
  tags :: "string list"
  detail :: jsval

datatype reply = Continue | Reply jsval jsval

record request =
  response :: jsval

definition prettyPrintErrors :: "request \<Rightarrow> error + (log_record list \<times> reply)" where
  "prettyPrintErrors req =
     bind_err (getProp (response req) ''isBoom'') (\<lambda>isBoom.
       if truthy isBoom then
         (let err = response req in
          bind_err (getProp err ''output'') (\<lambda>output.
          bind_err (getProp output ''payload'') (\<lambda>payload.
          bind_err (getProp payload ''error'') (\<lambda>errName.
          bind_err (getProp err ''message'') (\<lambda>errMessage.
          bind_err (getProp payload ''statusCode'') (\<lambda>statusCode.
          bind_err (getProp err ''stack'') (\<lambda>stack0.
            (let stack = (if truthy stack0 then stack0 else errMessage);
                 logs = (if statusCode = Num 500
                         then [\<lparr>tags = [''server'', ''error''], detail = stack\<rparr>]
                         else []);
                 response0 = [(''statusCode'', statusCode),
                              (''error'', errName),
                              (''message'', errMessage)]
             in bind_err (getProp err ''data'') (\<lambda>data.
                  (let response1 = (if truthy data
                                    then response0 @ [(''data'', data)]
                                    else response0)
                   in Inr (logs, Reply (Obj response1) statusCode)))))))))))
       else Inr ([], Continue))"

section \<open>The configuration and the CORS policy\<close>

text \<open>
  The services and their executors are objects that the bootstrap mutates through
  references, and two references may denote one object. An object has the slots that the
  source reads and writes: \<^verbatim>\<open>apiUri\<close>, \<^verbatim>\<open>tokenGen\<close>, \<^verbatim>\<open>userTokenGen\<close>, the reference
  \<^verbatim>\<open>executor\<close> (\<open>None\<close> when undefined) and the outcome of calling \<^verbatim>\<open>cleanUp\<close>.
  Function-valued slots hold the closures this module creates, by name.
\<close>

datatype closure = BuildTokenGen | UserTokenGen

datatype task_closure = QueueCleanup

type_synonym ref = nat

record js_object =
  apiUri :: jsval
  tokenGen :: "closure option"
  userTokenGen :: "closure option"
  executor :: "ref option"
  cleanUp :: "error + jsval"

text \<open>
  The configuration handed to the bootstrap. The build and job factories are the two
  services the bootstrap writes to, given by reference; a factory that is missing from
  the configuration is \<open>None\<close> (reading a property of it is a TypeError). The other
  factories are only copied.
\<close>

record app =
  commandFactory :: jsval
  commandTagFactory :: jsval
  templateFactory :: jsval
  templateTagFactory :: jsval
  triggerFactory :: jsval
  pipelineFactory :: jsval
  jobFactory :: "ref option"
  userFactory :: jsval
  buildFactory :: "ref option"
  stepFactory :: jsval
  bannerFactory :: jsval
  secretFactory :: jsval
  tokenFactory :: jsval
  eventFactory :: jsval
  collectionFactory :: jsval
  buildClusterFactory :: jsval
  ecosystem :: jsval

record config =
  httpd :: jsval
  ecosystem :: jsval
  commandFactory :: jsval
  commandTagFactory :: jsval
  templateFactory :: jsval
  templateTagFactory :: jsval
  triggerFactory :: jsval
  pipelineFactory :: jsval
  jobFactory :: "ref option"
  userFactory :: jsval
  buildFactory :: "ref option"
  stepFactory :: jsval
  bannerFactory :: jsval
  secretFactory :: jsval
  tokenFactory :: jsval
  eventFactory :: jsval
  collectionFactory :: jsval
  buildClusterFactory :: jsval

record CorsPolicy =
  origin :: "jsval list"
  additionalExposedHeaders :: "string list"
  credentials :: bool

text \<open>\<^verbatim>\<open>xs.concat(v)\<close>: the elements of an array argument, any other argument itself.\<close>

fun js_concat :: "jsval list \<Rightarrow> jsval \<Rightarrow> jsval list" where
  "js_concat xs (Arr ys) = xs @ ys"
| "js_concat xs v = xs @ [v]"

definition corsOrigins :: "config \<Rightarrow> error + jsval list" where
  "corsOrigins cfg =
     bind_err (getProp (config.ecosystem cfg) ''ui'') (\<lambda>ui.
     bind_err (getProp (config.ecosystem cfg) ''allowCors'') (\<lambda>allowCors.
       Inr (if isArray allowCors then js_concat [ui] allowCors else [ui])))"

definition cors :: "config \<Rightarrow> error + CorsPolicy" where
  "cors cfg =
     bind_err (corsOrigins cfg) (\<lambda>os.
       Inr \<lparr>origin = os,
            additionalExposedHeaders = [''x-more-data''],
            credentials = True\<rparr>)"

section \<open>The server and its collaborators\<close>

text \<open>
  The auth and shutdown capabilities are installed by the plugin registrar; their
  operations are external and may throw. An entry of \<^verbatim>\<open>server.plugins\<close> is the object
  a registered plugin exposes, or is absent. A shutdown task is what the bootstrap passes
  to the coordinator's \<^verbatim>\<open>handler\<close>.
\<close>

record auth =
  generateProfile :: "jsval list \<Rightarrow> error + jsval"
  generateToken :: "jsval list \<Rightarrow> error + jsval"

record shutdown_task =
  taskname :: string
  task :: task_closure

record shutdown =
  handler :: "shutdown_task \<Rightarrow> error + jsval"

record plugins =
  auth :: "auth option"
  shutdown :: "shutdown option"

datatype hook = PrettyPrintErrors

record server_options =
  routes_cors :: CorsPolicy
  routes_log :: bool
  router_stripTrailingSlash :: bool

record server =
  options :: server_options
  app :: app
  connections :: "jsval list"
  ext :: "(string \<times> hook) list"
  events :: "string list"
  plugins :: plugins
  info :: jsval
  heap :: "ref \<Rightarrow> js_object"

text \<open>
  A server is modelled together with the objects reachable from it (\<open>heap\<close>).
  What the module requires and Hapi provides: the plugin registrar and the listener
  start return a promise, rejected (\<open>Inl\<close>) or fulfilled with the server as they leave it
  (\<open>Inr\<close>); the logger's \<^verbatim>\<open>error\<close> returns a value; \<open>connection_info\<close> is the
  \<^verbatim>\<open>server.info\<close> that Hapi derives from the connection settings; \<open>objects\<close> are the
  objects that the references of the configuration denote when the bootstrap is called.
  The logger calls are taken not to throw.
\<close>

record env =
  registrationMan :: "server \<Rightarrow> config \<Rightarrow> error + server"
  start :: "server \<Rightarrow> error + server"
  logger_error :: "string \<Rightarrow> error \<Rightarrow> jsval"
  connection_info :: "jsval \<Rightarrow> jsval"
  objects :: "ref \<Rightarrow> js_object"

text \<open>The calls to collaborators, in the order they happen.\<close>

datatype event =
    CallRegistrationMan
  | CallHandler shutdown_task
  | CallStart
  | LoggerError string error
  | LoggerInfo string
  | CallGenerateProfile "jsval list"
  | CallGenerateToken "jsval list"
  | CallCleanUp

text \<open>Lines 74 to 128: the server as configured, before plugin registration.\<close>

definition configure :: "env \<Rightarrow> config \<Rightarrow> error + server" where
  "configure en cfg =
     bind_err (cors cfg) (\<lambda>c.
       Inr \<lparr>options = \<lparr>routes_cors = c, routes_log = True, router_stripTrailingSlash = True\<rparr>,
            app = \<lparr>app.commandFactory = config.commandFactory cfg,
                   app.commandTagFactory = config.commandTagFactory cfg,
                   app.templateFactory = config.templateFactory cfg,
                   app.templateTagFactory = config.templateTagFactory cfg,
                   app.triggerFactory = config.triggerFactory cfg,
                   app.pipelineFactory = config.pipelineFactory cfg,
                   app.jobFactory = config.jobFactory cfg,
                   app.userFactory = config.userFactory cfg,
                   app.buildFactory = config.buildFactory cfg,
                   app.stepFactory = config.stepFactory cfg,
                   app.bannerFactory = config.bannerFactory cfg,
                   app.secretFactory = config.secretFactory cfg,
                   app.tokenFactory = config.tokenFactory cfg,
                   app.eventFactory = config.eventFactory cfg,
                   app.collectionFactory = config.collectionFactory cfg,
                   app.buildClusterFactory = config.buildClusterFactory cfg,
                   app.ecosystem = config.ecosystem cfg\<rparr>,
            connections = [httpd cfg],
            ext = [(''onPreResponse'', PrettyPrintErrors)],
            events = [''build_status''],
            plugins = \<lparr>auth = None, shutdown = None\<rparr>,
            info = connection_info en (httpd cfg),
            heap = objects en\<rparr>)"

section \<open>The closures\<close>

text \<open>The i-th argument of a call; a parameter with no argument is undefined.\<close>

definition arg :: "jsval list \<Rightarrow> nat \<Rightarrow> jsval" where
  "arg args i = (if i < length args then args ! i else Undefined)"

text \<open>
  Calling one of the two token generators (lines 136 and 143) on the server as it is at
  the time of the call.
\<close>

fun call_closure :: "server \<Rightarrow> closure \<Rightarrow> jsval list \<Rightarrow> event list \<times> (error + jsval)" where
  "call_closure s BuildTokenGen args =
     (let buildId = arg args 0; metadata = arg args 1;
          scmContext = arg args 2; expiresIn = arg args 3
      in case auth (plugins s) of
           None \<Rightarrow> ([], Inl TypeError)
         | Some a \<Rightarrow>
             (let pargs = [buildId, scmContext, Arr [Str ''temporal''], metadata]
              in case generateProfile a pargs of
                   Inl e \<Rightarrow> ([CallGenerateProfile pargs], Inl e)
                 | Inr profile \<Rightarrow>
                     ([CallGenerateProfile pargs, CallGenerateToken [profile, expiresIn]],
                      generateToken a [profile, expiresIn])))"
| "call_closure s UserTokenGen args =
     (let username = arg args 0; metadata = arg args 1; scmContext = arg args 2
      in case auth (plugins s) of
           None \<Rightarrow> ([], Inl TypeError)
         | Some a \<Rightarrow>
             (let pargs = [username, scmContext, Arr [Str ''user''], metadata]
              in case generateProfile a pargs of
                   Inl e \<Rightarrow> ([CallGenerateProfile pargs], Inl e)
                 | Inr profile \<Rightarrow>
                     ([CallGenerateProfile pargs, CallGenerateToken [profile]],
                      generateToken a [profile])))"



section \<open>Post-registration wiring and the bootstrap\<close>

text \<open>Lines 135 to 140.\<close>

definition wire_buildFactory :: "server \<Rightarrow> error + server" where
  "wire_buildFactory s =
     (case app.buildFactory (app s) of
        None \<Rightarrow> Inl TypeError
      | Some b \<Rightarrow>
          bind_err (getProp (info s) ''uri'') (\<lambda>uri.
            (let h1 = (heap s)(b := (heap s b)\<lparr>apiUri := uri\<rparr>);
                 h2 = h1(b := (h1 b)\<lparr>tokenGen := Some BuildTokenGen\<rparr>)
             in case executor (h2 b) of
                  None \<Rightarrow> Inl TypeError
                | Some x \<Rightarrow>
                    Inr (s\<lparr>heap := h2(x := (h2 x)\<lparr>tokenGen := tokenGen (h2 b)\<rparr>)\<rparr>))))"

text \<open>Lines 142 to 147.\<close>

definition wire_jobFactory :: "server \<Rightarrow> error + server" where
  "wire_jobFactory s =
     (case app.jobFactory (app s) of
        None \<Rightarrow> Inl TypeError
      | Some j \<Rightarrow>
          bind_err (getProp (info s) ''uri'') (\<lambda>uri.
            (let h1 = (heap s)(j := (heap s j)\<lparr>apiUri := uri\<rparr>);
                 h2 = h1(j := (h1 j)\<lparr>tokenGen := Some UserTokenGen\<rparr>)
             in case executor (h2 j) of
                  None \<Rightarrow> Inl TypeError
                | Some x \<Rightarrow>
                    Inr (s\<lparr>heap := h2(x := (h2 x)\<lparr>userTokenGen := tokenGen (h2 j)\<rparr>)\<rparr>))))"

text \<open>Lines 148 to 157.\<close>

definition register_shutdown :: "server \<Rightarrow> event list \<times> (error + server)" where
  "register_shutdown s =
     (case shutdown (plugins s) of
        None \<Rightarrow> ([], Inr s)
      | Some sd \<Rightarrow>
          (let t = \<lparr>taskname = ''executor-queue-cleanup'', task = QueueCleanup\<rparr>
           in case handler sd t of
                Inl e \<Rightarrow> ([CallHandler t], Inl e)
              | Inr r \<Rightarrow> ([CallHandler t], Inr s)))"

definition wiring :: "server \<Rightarrow> event list \<times> (error + server)" where
  "wiring s =
     (case wire_buildFactory s of
        Inl e \<Rightarrow> ([], Inl e)
      | Inr s1 \<Rightarrow>
          (case wire_jobFactory s1 of
             Inl e \<Rightarrow> ([], Inl e)
           | Inr s2 \<Rightarrow> register_shutdown s2))"

text \<open>
  The exported function (line 70): it throws while configuring, or returns a promise
  that is rejected, or resolved with the running server or with another value.
\<close>

datatype resolution = Running server | Value jsval

datatype outcome = Threw error | Rejected error | Resolved resolution

definition module_exports :: "env \<Rightarrow> config \<Rightarrow> event list \<times> outcome" where
  "module_exports en cfg =
     (case configure en cfg of
        Inl e \<Rightarrow> ([], Threw e)
      | Inr s0 \<Rightarrow>
          (case registrationMan en s0 cfg of
             Inl e \<Rightarrow> ([CallRegistrationMan], Rejected e)
           | Inr s1 \<Rightarrow>
               (case wiring s1 of
                  (evs, Inl e) \<Rightarrow> (CallRegistrationMan # evs, Rejected e)
                | (evs, Inr s2) \<Rightarrow>
                    (case start en s2 of
                       Inl err \<Rightarrow>
                         (CallRegistrationMan # evs @
                            [CallStart, LoggerError ''Failed to start server'' err],
                          Resolved (Value (logger_error en ''Failed to start server'' err)))
                     | Inr s3 \<Rightarrow>
                         (CallRegistrationMan # evs @ [CallStart],
                          Resolved (Running s3))))))"

text \<open>
  A caller of the bootstrap that, once the promise has resolved with the running server,
  calls \<^verbatim>\<open>server.app.buildFactory.tokenGen\<close> with the given arguments (a TypeError when
  the service is undefined or the slot holds no function).
\<close>

definition invoke_tokenGen ::
  "server \<Rightarrow> ref option \<Rightarrow> jsval list \<Rightarrow> event list \<times> (error + jsval)" where
  "invoke_tokenGen s service args =
     (case service of
        None \<Rightarrow> ([], Inl TypeError)
      | Some r \<Rightarrow>
          (case tokenGen (heap s r) of
             None \<Rightarrow> ([], Inl TypeError)
           | Some c \<Rightarrow> call_closure s c args))"


section \<open>Failure responses and example inputs\<close>

text \<open>
  A failure response is one whose \<^verbatim>\<open>isBoom\<close> flag is truthy; it is well formed when its
  \<^verbatim>\<open>output\<close> and \<^verbatim>\<open>output.payload\<close> can be read.
\<close>

definition failure :: "jsval \<Rightarrow> bool" where
  "failure err \<longleftrightarrow>
     truthy (js_get err ''isBoom'') \<and>
     \<not> nullish (js_get err ''output'') \<and>
     \<not> nullish (js_get (js_get err ''output'') ''payload'')"

definition payload_of :: "jsval \<Rightarrow> jsval" where
  "payload_of err = js_get (js_get err ''output'') ''payload''"

text \<open>
  A failure with status 500, a stack and a \<^verbatim>\<open>data\<close> payload, whose own message differs
  from the message of its payload; a 404 without \<^verbatim>\<open>data\<close>; and two failures whose
  \<^verbatim>\<open>data\<close> attribute holds 0 and null.
\<close>

definition boom :: "int \<Rightarrow> string \<Rightarrow> string \<Rightarrow> string \<Rightarrow> (string \<times> jsval) list" where
  "boom code label msg payload_msg =
     [(''isBoom'', Bool True),
      (''message'', Str msg),
      (''output'', Obj [(''statusCode'', Num code),
                        (''payload'', Obj [(''statusCode'', Num code),
                                           (''error'', Str label),
                                           (''message'', Str payload_msg)])])]"

definition req500 :: request where
  "req500 = \<lparr>response = Obj (boom 500 ''Internal Server Error'' ''db down''
                               ''An internal server error occurred''
                             @ [(''stack'', Str ''Error: db down at handler''),
                                (''data'', Obj [(''reason'', Str ''db'')])])\<rparr>"

definition req404 :: request where
  "req404 = \<lparr>response = Obj (boom 404 ''Not Found'' ''Not Found'' ''Not Found'')\<rparr>"

definition req_data_zero :: request where
  "req_data_zero = \<lparr>response = Obj (boom 400 ''Bad Request'' ''bad'' ''bad'' @ [(''data'', Num 0)])\<rparr>"

definition req_data_null :: request where
  "req_data_null = \<lparr>response = Obj (boom 400 ''Bad Request'' ''bad'' ''bad'' @ [(''data'', Null)])\<rparr>"

text \<open>
  A configuration with a given ecosystem, whose build service (object 1) and job service
  (object 2) share one executor (object 3) and have a \<^verbatim>\<open>cleanUp\<close> that succeeds; the
  same configuration with the build service in the job slot too; collaborators whose
  registrar installs given plugins or rejects, whose listener starts or fails, and whose
  logger returns a given value.
\<close>

definition obj0 :: js_object where
  "obj0 = \<lparr>apiUri = Undefined, tokenGen = None, userTokenGen = None,
           executor = None, cleanUp = Inl TypeError\<rparr>"

definition fac0 :: js_object where
  "fac0 = \<lparr>apiUri = Undefined, tokenGen = None, userTokenGen = None,
           executor = Some 3, cleanUp = Inr Undefined\<rparr>"

definition heap0 :: "ref \<Rightarrow> js_object" where
  "heap0 = (\<lambda>r. if r = 1 \<or> r = 2 then fac0 else obj0)"

definition cfg0 :: "jsval \<Rightarrow> config" where
  "cfg0 eco =
     \<lparr>httpd = Obj [(''port'', Num 8080)], ecosystem = eco,
      commandFactory = Obj [], commandTagFactory = Obj [], templateFactory = Obj [],
      templateTagFactory = Obj [], triggerFactory = Obj [], pipelineFactory = Obj [],
      jobFactory = Some 2, userFactory = Obj [], buildFactory = Some 1,
      stepFactory = Obj [], bannerFactory = Obj [], secretFactory = Obj [],
      tokenFactory = Obj [], eventFactory = Obj [], collectionFactory = Obj [],
      buildClusterFactory = Obj []\<rparr>"


definition eco_ui :: jsval where
  "eco_ui = Obj [(''ui'', Str ''https://ui.example'')]"

definition eco_empty :: jsval where
  "eco_empty = Obj [(''ui'', Str ''https://ui.example''), (''allowCors'', Arr [])]"

definition eco_string :: jsval where
  "eco_string = Obj [(''ui'', Str ''https://ui.example''),
                     (''allowCors'', Str ''https://a.example'')]"

definition eco_two :: jsval where
  "eco_two = Obj [(''ui'', Str ''https://ui.example''),
                  (''allowCors'', Arr [Str ''https://a.example'', Str ''https://b.example''])]"

definition auth0 :: auth where
  "auth0 = \<lparr>generateProfile = (\<lambda>args. Inr (Obj [(''profile'', Arr args)])),
            generateToken = (\<lambda>args. Inr (Obj [(''token'', Arr args)]))\<rparr>"

definition shutdown0 :: shutdown where
  "shutdown0 = \<lparr>handler = (\<lambda>t. Inr Undefined)\<rparr>"

definition env0 :: "error + plugins \<Rightarrow> error option \<Rightarrow> jsval \<Rightarrow> env" where
  "env0 reg st ret =
     \<lparr>registrationMan = (\<lambda>s c. case reg of Inl e \<Rightarrow> Inl e | Inr ps \<Rightarrow> Inr (s\<lparr>plugins := ps\<rparr>)),
      start = (\<lambda>s. case st of Some e \<Rightarrow> Inl e | None \<Rightarrow> Inr s),
      logger_error = (\<lambda>m e. ret),
      connection_info = (\<lambda>h. Obj [(''uri'', Str ''http://localhost:8080'')]),
      objects = heap0\<rparr>"

text \<open>
  Plugins with and without the shutdown coordinator, a registrar that rejects, and a
  listener that fails to start with a logger whose \<^verbatim>\<open>error\<close> returns an object.
\<close>

definition plugins_all :: plugins where
  "plugins_all = \<lparr>auth = Some auth0, shutdown = Some shutdown0\<rparr>"

definition plugins_auth :: plugins where
  "plugins_auth = \<lparr>auth = Some auth0, shutdown = None\<rparr>"

definition install_failed :: error where
  "install_failed = Thrown (Str ''install failed'')"

definition listen_failed :: error where
  "listen_failed = Thrown (Str ''listen EADDRINUSE'')"

definition env_reg_fails :: env where
  "env_reg_fails = env0 (Inl install_failed) None Undefined"

definition env_start_fails :: env where
  "env_start_fails = env0 (Inr plugins_all) (Some listen_failed) (Obj [(''level'', Str ''info'')])"


text \<open>
  The server that the bootstrap configures from \<open>cfg0\<close> with only a UI origin, and that
  server once the registrar has installed the plugins.
\<close>

definition srv0 :: server where
  "srv0 =
     \<lparr>options = \<lparr>routes_cors = \<lparr>origin = [Str ''https://ui.example''],
                                  additionalExposedHeaders = [''x-more-data''],
                                  credentials = True\<rparr>,
                 routes_log = True, router_stripTrailingSlash = True\<rparr>,
      app = \<lparr>app.commandFactory = Obj [], app.commandTagFactory = Obj [],
             app.templateFactory = Obj [], app.templateTagFactory = Obj [],
             app.triggerFactory = Obj [], app.pipelineFactory = Obj [],
             app.jobFactory = Some 2, app.userFactory = Obj [],
             app.buildFactory = Some 1, app.stepFactory = Obj [],
             app.bannerFactory = Obj [], app.secretFactory = Obj [],
             app.tokenFactory = Obj [], app.eventFactory = Obj [],
             app.collectionFactory = Obj [], app.buildClusterFactory = Obj [],
             app.ecosystem = Obj [(''ui'', Str ''https://ui.example'')]\<rparr>,
      connections = [Obj [(''port'', Num 8080)]],
      ext = [(''onPreResponse'', PrettyPrintErrors)],
      events = [''build_status''],
      plugins = \<lparr>auth = None, shutdown = None\<rparr>,
      info = Obj [(''uri'', Str ''http://localhost:8080'')],
      heap = heap0\<rparr>"

definition srv1 :: "plugins \<Rightarrow> server" where
  "srv1 ps = srv0\<lparr>plugins := ps\<rparr>"

section \<open>Properties of the error normalizer\<close>

lemma truthy_not_nullish: "truthy (js_get v k) \<Longrightarrow> \<not> nullish v"
  by (cases v) simp_all

lemma prettyPrintErrors_failure:
  assumes "failure (response req)"
  shows "prettyPrintErrors req =
           Inr (if js_get (payload_of (response req)) ''statusCode'' = Num 500
                then [\<lparr>tags = [''server'', ''error''],
                       detail = (if truthy (js_get (response req) ''stack'')
                                 then js_get (response req) ''stack''
                                 else js_get (response req) ''message'')\<rparr>]
                else [],
                Reply (Obj ([(''statusCode'', js_get (payload_of (response req)) ''statusCode''),
                             (''error'', js_get (payload_of (response req)) ''error''),
                             (''message'', js_get (response req) ''message'')]
                            @ (if truthy (js_get (response req) ''data'')
                               then [(''data'', js_get (response req) ''data'')]
                               else [])))
                      (js_get (payload_of (response req)) ''statusCode''))"
proof -
  from assms have t: "truthy (js_get (response req) ''isBoom'')"
    and o: "\<not> nullish (js_get (response req) ''output'')"
    and p: "\<not> nullish (js_get (js_get (response req) ''output'') ''payload'')"
    by (simp_all add: failure_def)
  from t have n: "\<not> nullish (response req)" by (rule truthy_not_nullish)
  show ?thesis
    using t o p n
    by (simp add: prettyPrintErrors_def getProp_def bind_err_def payload_of_def Let_def)
qed

lemma failure_req500: "failure (response req500)"
  by (simp add: failure_def req500_def boom_def)

lemma failure_req404: "failure (response req404)"
  by (simp add: failure_def req404_def boom_def)

text \<open>
  C3. A failure response with status code 500 makes the error normalizer emit exactly one
  log record; a failure response with any other status code makes it emit none.
\<close>

theorem log_only_on_500:
  assumes "failure (response req)"
  shows "\<exists>logs r. prettyPrintErrors req = Inr (logs, r) \<and>
           length logs =
             (if js_get (payload_of (response req)) ''statusCode'' = Num 500 then 1 else 0)"
  by (simp add: prettyPrintErrors_failure [OF assms])

theorem log_only_on_500_witness:
  "failure (response req500) \<and> failure (response req404) \<and>
   (\<exists>logs r. prettyPrintErrors req500 = Inr (logs, r) \<and> length logs = 1) \<and>
   (\<exists>logs r. prettyPrintErrors req404 = Inr (logs, r) \<and> length logs = 0)"
proof -
  have a: "js_get (payload_of (response req500)) ''statusCode'' = Num 500"
    by (simp add: payload_of_def req500_def boom_def)
  have b: "js_get (payload_of (response req404)) ''statusCode'' \<noteq> Num 500"
    by (simp add: payload_of_def req404_def boom_def)
  from log_only_on_500 [OF failure_req500] a
  have c: "\<exists>logs r. prettyPrintErrors req500 = Inr (logs, r) \<and> length logs = 1"
    by simp
  from log_only_on_500 [OF failure_req404] b
  have d: "\<exists>logs r. prettyPrintErrors req404 = Inr (logs, r) \<and> length logs = 0"
    by simp
  from failure_req500 failure_req404 c d show ?thesis by blast
qed

text \<open>
  C4, as amended. The normalized body of a failure response always has the status code,
  the error label and the message. It has a \<^verbatim>\<open>data\<close> key, holding the failure's
  \<^verbatim>\<open>data\<close> value unchanged, exactly when that value is truthy: a failure without a
  \<^verbatim>\<open>data\<close> attribute, or whose \<^verbatim>\<open>data\<close> is undefined, null, false, 0, NaN or
  the empty string, gives a body without \<^verbatim>\<open>data\<close> key.
\<close>

theorem data_copied_when_truthy:
  assumes "failure (response req)"
  shows "\<exists>logs body code. prettyPrintErrors req = Inr (logs, Reply (Obj body) code) \<and>
           map fst body =
             [''statusCode'', ''error'', ''message''] @
             (if truthy (js_get (response req) ''data'') then [''data''] else []) \<and>
           map_of body ''data'' =
             (if truthy (js_get (response req) ''data'')
              then Some (js_get (response req) ''data'') else None)"
  by (simp add: prettyPrintErrors_failure [OF assms])

theorem data_copied_when_truthy_witness:
  "failure (response req500) \<and> failure (response req404) \<and>
   (\<exists>logs body code. prettyPrintErrors req500 = Inr (logs, Reply (Obj body) code) \<and>
      map fst body = [''statusCode'', ''error'', ''message'', ''data''] \<and>
      map_of body ''data'' = Some (Obj [(''reason'', Str ''db'')])) \<and>
   (\<exists>logs body code. prettyPrintErrors req404 = Inr (logs, Reply (Obj body) code) \<and>
      map fst body = [''statusCode'', ''error'', ''message''] \<and>
      map_of body ''data'' = None)"
proof -
  have a: "js_get (response req500) ''data'' = Obj [(''reason'', Str ''db'')]"
    by (simp add: req500_def boom_def)
  have b: "js_get (response req404) ''data'' = Undefined"
    by (simp add: req404_def boom_def)
  from data_copied_when_truthy [OF failure_req500]
  have c: "\<exists>logs body code. prettyPrintErrors req500 = Inr (logs, Reply (Obj body) code) \<and>
      map fst body = [''statusCode'', ''error'', ''message'', ''data''] \<and>
      map_of body ''data'' = Some (Obj [(''reason'', Str ''db'')])"
    unfolding a by simp
  from data_copied_when_truthy [OF failure_req404]
  have d: "\<exists>logs body code. prettyPrintErrors req404 = Inr (logs, Reply (Obj body) code) \<and>
      map fst body = [''statusCode'', ''error'', ''message''] \<and>
      map_of body ''data'' = None"
    unfolding b by simp
  from failure_req500 failure_req404 c d show ?thesis by blast
qed

text \<open>
  C4 as stated fails: these two failures carry a \<^verbatim>\<open>data\<close> attribute (0 and null), and
  the normalized body has no \<^verbatim>\<open>data\<close> key.
\<close>

theorem data_attribute_dropped_counterexample:
  "map_of (boom 400 ''Bad Request'' ''bad'' ''bad'' @ [(''data'', Num 0)]) ''data'' = Some (Num 0) \<and>
   prettyPrintErrors req_data_zero =
     Inr ([], Reply (Obj [(''statusCode'', Num 400), (''error'', Str ''Bad Request''),
                          (''message'', Str ''bad'')]) (Num 400)) \<and>
   map_of (boom 400 ''Bad Request'' ''bad'' ''bad'' @ [(''data'', Null)]) ''data'' = Some Null \<and>
   prettyPrintErrors req_data_null =
     Inr ([], Reply (Obj [(''statusCode'', Num 400), (''error'', Str ''Bad Request''),
                          (''message'', Str ''bad'')]) (Num 400))"
  by (simp add: prettyPrintErrors_def getProp_def bind_err_def req_data_zero_def
      req_data_null_def boom_def)

text \<open>
  C10. The message of the normalized body is the failure's own top-level message, not the
  message of its output payload; the error label and the status code are those of the
  payload.
\<close>

theorem message_from_top_level:
  assumes "failure (response req)"
  shows "\<exists>logs body code. prettyPrintErrors req = Inr (logs, Reply (Obj body) code) \<and>
           map_of body ''message'' = Some (js_get (response req) ''message'') \<and>
           map_of body ''error'' = Some (js_get (payload_of (response req)) ''error'') \<and>
           map_of body ''statusCode'' = Some (js_get (payload_of (response req)) ''statusCode'') \<and>
           code = js_get (payload_of (response req)) ''statusCode''"
  by (simp add: prettyPrintErrors_failure [OF assms])

theorem message_from_top_level_witness:
  "failure (response req500) \<and>
   js_get (response req500) ''message'' = Str ''db down'' \<and>
   js_get (payload_of (response req500)) ''message'' = Str ''An internal server error occurred'' \<and>
   (\<exists>logs body code. prettyPrintErrors req500 = Inr (logs, Reply (Obj body) code) \<and>
      map_of body ''message'' = Some (Str ''db down'') \<and>
      map_of body ''error'' = Some (Str ''Internal Server Error'') \<and>
      map_of body ''statusCode'' = Some (Num 500) \<and> code = Num 500)"
proof -
  have a: "js_get (response req500) ''message'' = Str ''db down''"
    by (simp add: req500_def boom_def)
  have b: "js_get (payload_of (response req500)) ''message'' = Str ''An internal server error occurred''"
    by (simp add: payload_of_def req500_def boom_def)
  have c: "js_get (payload_of (response req500)) ''error'' = Str ''Internal Server Error''"
    by (simp add: payload_of_def req500_def boom_def)
  have d: "js_get (payload_of (response req500)) ''statusCode'' = Num 500"
    by (simp add: payload_of_def req500_def boom_def)
  from message_from_top_level [OF failure_req500]
  have "\<exists>logs body code. prettyPrintErrors req500 = Inr (logs, Reply (Obj body) code) \<and>
      map_of body ''message'' = Some (Str ''db down'') \<and>
      map_of body ''error'' = Some (Str ''Internal Server Error'') \<and>
      map_of body ''statusCode'' = Some (Num 500) \<and> code = Num 500"
    unfolding a c d by simp
  with failure_req500 a b show ?thesis by blast
qed

section \<open>Properties of the CORS policy\<close>

lemma cors_not_array:
  assumes "\<not> nullish (config.ecosystem cfg)"
    and "\<not> isArray (js_get (config.ecosystem cfg) ''allowCors'')"
  shows "cors cfg = Inr \<lparr>origin = [js_get (config.ecosystem cfg) ''ui''],
                         additionalExposedHeaders = [''x-more-data''],
                         credentials = True\<rparr>"
  using assms by (simp add: cors_def corsOrigins_def getProp_def bind_err_def)

lemma cors_array:
  assumes "\<not> nullish (config.ecosystem cfg)"
    and "js_get (config.ecosystem cfg) ''allowCors'' = Arr xs"
  shows "cors cfg = Inr \<lparr>origin = js_get (config.ecosystem cfg) ''ui'' # xs,
                         additionalExposedHeaders = [''x-more-data''],
                         credentials = True\<rparr>"
  using assms by (simp add: cors_def corsOrigins_def getProp_def bind_err_def)

text \<open>
  C5. When the extra origins \<^verbatim>\<open>allowCors\<close> of the ecosystem configuration are absent
  (the property then reads as undefined), not an array, or the empty array, the origins
  of the CORS policy are exactly the one-element list of the UI origin.
\<close>

theorem cors_single_origin:
  assumes "\<not> nullish (config.ecosystem cfg)"
    and "\<not> isArray (js_get (config.ecosystem cfg) ''allowCors'') \<or>
         js_get (config.ecosystem cfg) ''allowCors'' = Arr []"
  shows "\<exists>c. cors cfg = Inr c \<and> origin c = [js_get (config.ecosystem cfg) ''ui'']"
proof (cases "isArray (js_get (config.ecosystem cfg) ''allowCors'')")
  case True
  with assms(2) have "js_get (config.ecosystem cfg) ''allowCors'' = Arr []" by simp
  from cors_array [OF assms(1) this] show ?thesis by simp
next
  case False
  from cors_not_array [OF assms(1) False] show ?thesis by simp
qed

theorem cors_single_origin_witness:
  "map_of [(''ui'', Str ''https://ui.example'')] ''allowCors'' = None \<and>
   (\<exists>c. cors (cfg0 eco_ui) = Inr c \<and> origin c = [Str ''https://ui.example'']) \<and>
   js_get eco_empty ''allowCors'' = Arr [] \<and>
   (\<exists>c. cors (cfg0 eco_empty) = Inr c \<and> origin c = [Str ''https://ui.example'']) \<and>
   \<not> isArray (js_get eco_string ''allowCors'') \<and>
   (\<exists>c. cors (cfg0 eco_string) = Inr c \<and> origin c = [Str ''https://ui.example''])"
proof -
  have n1: "\<not> nullish (config.ecosystem (cfg0 eco_ui))"
    and n2: "\<not> nullish (config.ecosystem (cfg0 eco_empty))"
    and n3: "\<not> nullish (config.ecosystem (cfg0 eco_string))"
    by (simp_all add: cfg0_def eco_ui_def eco_empty_def eco_string_def)
  have a1: "\<not> isArray (js_get (config.ecosystem (cfg0 eco_ui)) ''allowCors'')"
    by (simp add: cfg0_def eco_ui_def)
  have a2: "js_get (config.ecosystem (cfg0 eco_empty)) ''allowCors'' = Arr []"
    by (simp add: cfg0_def eco_empty_def)
  have a3: "\<not> isArray (js_get (config.ecosystem (cfg0 eco_string)) ''allowCors'')"
    by (simp add: cfg0_def eco_string_def)
  have u1: "js_get (config.ecosystem (cfg0 eco_ui)) ''ui'' = Str ''https://ui.example''"
    and u2: "js_get (config.ecosystem (cfg0 eco_empty)) ''ui'' = Str ''https://ui.example''"
    and u3: "js_get (config.ecosystem (cfg0 eco_string)) ''ui'' = Str ''https://ui.example''"
    by (simp_all add: cfg0_def eco_ui_def eco_empty_def eco_string_def)
  from cors_single_origin [OF n1] a1 u1
  have c1: "\<exists>c. cors (cfg0 eco_ui) = Inr c \<and> origin c = [Str ''https://ui.example'']"
    by simp
  from cors_single_origin [OF n2] a2 u2
  have c2: "\<exists>c. cors (cfg0 eco_empty) = Inr c \<and> origin c = [Str ''https://ui.example'']"
    by simp
  from cors_single_origin [OF n3] a3 u3
  have c3: "\<exists>c. cors (cfg0 eco_string) = Inr c \<and> origin c = [Str ''https://ui.example'']"
    by simp
  have m: "map_of [(''ui'', Str ''https://ui.example'')] ''allowCors'' = None" by simp
  have e: "js_get eco_empty ''allowCors'' = Arr []" by (simp add: eco_empty_def)
  have t: "\<not> isArray (js_get eco_string ''allowCors'')" by (simp add: eco_string_def)
  from m c1 e c2 t c3 show ?thesis by (intro conjI)
qed

text \<open>
  C6. When the extra origins are the sequence \<open>[o1, o2]\<close>, the origins of the CORS policy
  are \<open>[uiOrigin, o1, o2]\<close>, in that order.
\<close>

theorem cors_extra_origins:
  assumes "\<not> nullish (config.ecosystem cfg)"
    and "js_get (config.ecosystem cfg) ''allowCors'' = Arr [o1, o2]"
  shows "\<exists>c. cors cfg = Inr c \<and> origin c = [js_get (config.ecosystem cfg) ''ui'', o1, o2]"
  using cors_array [OF assms] by simp

theorem cors_extra_origins_witness:
  "js_get (config.ecosystem (cfg0 eco_two)) ''allowCors'' =
     Arr [Str ''https://a.example'', Str ''https://b.example''] \<and>
   (\<exists>c. cors (cfg0 eco_two) = Inr c \<and>
      origin c = [Str ''https://ui.example'', Str ''https://a.example'', Str ''https://b.example''])"
proof -
  have n: "\<not> nullish (config.ecosystem (cfg0 eco_two))"
    by (simp add: cfg0_def eco_two_def)
  have a: "js_get (config.ecosystem (cfg0 eco_two)) ''allowCors'' =
     Arr [Str ''https://a.example'', Str ''https://b.example'']"
    by (simp add: cfg0_def eco_two_def)
  have u: "js_get (config.ecosystem (cfg0 eco_two)) ''ui'' = Str ''https://ui.example''"
    by (simp add: cfg0_def eco_two_def)
  from cors_extra_origins [OF n a] u a show ?thesis by simp
qed

section \<open>Properties of the wiring and the bootstrap\<close>

lemma wire_buildFactory_installs:
  assumes "app.buildFactory (app s) = Some b" and "executor (heap s b) = Some xb"
    and "\<not> nullish (info s)"
  shows "\<exists>s1. wire_buildFactory s = Inr s1 \<and>
           app s1 = app s \<and> plugins s1 = plugins s \<and> info s1 = info s \<and>
           tokenGen (heap s1 b) = Some BuildTokenGen \<and>
           tokenGen (heap s1 xb) = Some BuildTokenGen \<and>
           apiUri (heap s1 b) = js_get (info s) ''uri'' \<and>
           (\<forall>r. executor (heap s1 r) = executor (heap s r)) \<and>
           (\<forall>r. cleanUp (heap s1 r) = cleanUp (heap s r))"
  using assms
  by (simp add: wire_buildFactory_def getProp_def bind_err_def Let_def)

lemma wire_jobFactory_installs:
  assumes "app.jobFactory (app s) = Some j" and "executor (heap s j) = Some xj"
    and "\<not> nullish (info s)"
  shows "\<exists>s1. wire_jobFactory s = Inr s1 \<and>
           app s1 = app s \<and> plugins s1 = plugins s \<and> info s1 = info s \<and>
           tokenGen (heap s1 j) = Some UserTokenGen \<and>
           userTokenGen (heap s1 xj) = Some UserTokenGen \<and>
           apiUri (heap s1 j) = js_get (info s) ''uri'' \<and>
           (\<forall>r. r \<noteq> j \<longrightarrow> tokenGen (heap s1 r) = tokenGen (heap s r)) \<and>
           (\<forall>r. executor (heap s1 r) = executor (heap s r)) \<and>
           (\<forall>r. cleanUp (heap s1 r) = cleanUp (heap s r))"
  using assms
  by (simp add: wire_jobFactory_def getProp_def bind_err_def Let_def)



lemma register_shutdown_Inr:
  assumes "register_shutdown s = (evs, Inr s')"
  shows "s' = s"
  using assms
  by (auto simp: register_shutdown_def Let_def split: option.splits sum.splits)

lemma wiring_steps:
  assumes "wire_buildFactory s = Inr s1" and "wire_jobFactory s1 = Inr s2"
  shows "wiring s = register_shutdown s2"
  using assms by (simp add: wiring_def)

lemma configure_cfg0: "configure (env0 reg st ret) (cfg0 eco_ui) = Inr srv0"
  by (simp add: configure_def cors_def corsOrigins_def getProp_def bind_err_def cfg0_def
      eco_ui_def env0_def srv0_def)

lemma registrationMan_env0:
  "registrationMan (env0 (Inr ps) st ret) srv0 c = Inr (srv1 ps)"
  "registrationMan (env0 (Inl e) st ret) srv0 c = Inl e"
  by (simp_all add: env0_def srv1_def)

lemma srv1_services:
  "app.buildFactory (app (srv1 ps)) = Some 1"
  "app.jobFactory (app (srv1 ps)) = Some 2"
  "executor (heap (srv1 ps) 1) = Some 3"
  "executor (heap (srv1 ps) 2) = Some 3"
  "\<not> nullish (info (srv1 ps))"
  "plugins (srv1 ps) = ps"
  by (simp_all add: srv1_def srv0_def heap0_def fac0_def)

lemma srv1_fresh:
  "tokenGen (heap (srv1 ps) r) = None" "userTokenGen (heap (srv1 ps) r) = None"
  "cleanUp (heap (srv1 ps) 2) = Inr Undefined"
  by (simp_all add: srv1_def srv0_def heap0_def fac0_def obj0_def)

lemma wiring_services:
  assumes "app.buildFactory (app s) = Some b" and "executor (heap s b) = Some xb"
    and "app.jobFactory (app s) = Some j" and "executor (heap s j) = Some xj"
    and "\<not> nullish (info s)"
  shows "\<exists>s1 s2. wire_buildFactory s = Inr s1 \<and> wire_jobFactory s1 = Inr s2 \<and>
           wiring s = register_shutdown s2 \<and>
           app s2 = app s \<and> plugins s2 = plugins s \<and>
           tokenGen (heap s1 b) = Some BuildTokenGen \<and>
           tokenGen (heap s1 xb) = Some BuildTokenGen \<and>
           tokenGen (heap s2 j) = Some UserTokenGen \<and>
           userTokenGen (heap s2 xj) = Some UserTokenGen \<and>
           (\<forall>r. r \<noteq> j \<longrightarrow> tokenGen (heap s2 r) = tokenGen (heap s1 r)) \<and>
           (\<forall>r. executor (heap s2 r) = executor (heap s r)) \<and>
           (\<forall>r. cleanUp (heap s2 r) = cleanUp (heap s r))"
proof -
  from wire_buildFactory_installs [OF assms(1,2,5)] obtain s1 where
    b: "wire_buildFactory s = Inr s1" "app s1 = app s" "plugins s1 = plugins s"
       "info s1 = info s" "tokenGen (heap s1 b) = Some BuildTokenGen"
       "tokenGen (heap s1 xb) = Some BuildTokenGen"
       "\<forall>r. executor (heap s1 r) = executor (heap s r)"
       "\<forall>r. cleanUp (heap s1 r) = cleanUp (heap s r)"
    by blast
  from b(2,4,7) assms(3,4,5) have
    "app.jobFactory (app s1) = Some j" "executor (heap s1 j) = Some xj" "\<not> nullish (info s1)"
    by simp_all
  from wire_jobFactory_installs [OF this] obtain s2 where
    j: "wire_jobFactory s1 = Inr s2" "app s2 = app s1" "plugins s2 = plugins s1"
       "tokenGen (heap s2 j) = Some UserTokenGen"
       "userTokenGen (heap s2 xj) = Some UserTokenGen"
       "\<forall>r. r \<noteq> j \<longrightarrow> tokenGen (heap s2 r) = tokenGen (heap s1 r)"
       "\<forall>r. executor (heap s2 r) = executor (heap s1 r)"
       "\<forall>r. cleanUp (heap s2 r) = cleanUp (heap s1 r)"
    by blast
  from wiring_steps [OF b(1) j(1)] have w: "wiring s = register_shutdown s2" .
  from b j w show ?thesis by simp
qed

lemma wiring_srv1:
  "\<exists>s1 s2. wire_buildFactory (srv1 ps) = Inr s1 \<and> wire_jobFactory s1 = Inr s2 \<and>
      wiring (srv1 ps) = register_shutdown s2 \<and> plugins s2 = ps \<and>
      app.jobFactory (app s2) = Some 2 \<and> cleanUp (heap s2 2) = Inr Undefined"
proof -
  from wiring_services [OF srv1_services(1) srv1_services(3) srv1_services(2)
      srv1_services(4) srv1_services(5), of ps]
  obtain s1 s2 where
    w: "wire_buildFactory (srv1 ps) = Inr s1" "wire_jobFactory s1 = Inr s2"
       "wiring (srv1 ps) = register_shutdown s2" "app s2 = app (srv1 ps)"
       "plugins s2 = plugins (srv1 ps)"
       "\<forall>r. cleanUp (heap s2 r) = cleanUp (heap (srv1 ps) r)"
    by blast
  from w(4) have a: "app.jobFactory (app s2) = Some 2" by (simp add: srv1_services)
  from w(5) have b: "plugins s2 = ps" by (simp add: srv1_services)
  from w(6) have c: "cleanUp (heap s2 2) = Inr Undefined" by (simp add: srv1_fresh)
  from w(1,2,3) a b c show ?thesis by blast
qed

lemma register_shutdown_examples:
  "plugins s = plugins_all \<Longrightarrow>
     register_shutdown s =
       ([CallHandler \<lparr>taskname = ''executor-queue-cleanup'', task = QueueCleanup\<rparr>], Inr s)"
  "plugins s = plugins_auth \<Longrightarrow> register_shutdown s = ([], Inr s)"
  by (simp_all add: register_shutdown_def plugins_all_def plugins_auth_def shutdown0_def)

lemma wiring_srv1_all:
  "\<exists>s2. wiring (srv1 plugins_all) =
          ([CallHandler \<lparr>taskname = ''executor-queue-cleanup'', task = QueueCleanup\<rparr>], Inr s2)"
  using wiring_srv1 [of plugins_all] register_shutdown_examples(1) by fastforce

text \<open>
  C1. When the plugin registrar rejects with an error, the promise returned by the
  bootstrap is rejected with that same error, and the listener start is never invoked.
\<close>

theorem registration_failure_rejects:
  assumes "configure en cfg = Inr s0" and "registrationMan en s0 cfg = Inl e"
  shows "snd (module_exports en cfg) = Rejected e \<and>
         CallStart \<notin> set (fst (module_exports en cfg))"
  using assms by (simp add: module_exports_def)

theorem registration_failure_rejects_witness:
  "configure env_reg_fails (cfg0 eco_ui) = Inr srv0 \<and>
   registrationMan env_reg_fails srv0 (cfg0 eco_ui) = Inl (Thrown (Str ''install failed'')) \<and>
   snd (module_exports env_reg_fails (cfg0 eco_ui)) = Rejected (Thrown (Str ''install failed'')) \<and>
   CallStart \<notin> set (fst (module_exports env_reg_fails (cfg0 eco_ui)))"
proof -
  have a: "configure env_reg_fails (cfg0 eco_ui) = Inr srv0"
    unfolding env_reg_fails_def by (rule configure_cfg0)
  have b: "registrationMan env_reg_fails srv0 (cfg0 eco_ui) = Inl (Thrown (Str ''install failed''))"
    by (simp add: env_reg_fails_def registrationMan_env0 install_failed_def)
  from registration_failure_rejects [OF a b] a b show ?thesis by simp
qed

text \<open>
  C2, as amended. When plugin registration and the wiring succeed and the listener start
  fails, the promise returned by the bootstrap is not rejected: the logger's
  \<^verbatim>\<open>error\<close> is called once, with the message \<^verbatim>\<open>Failed to start server\<close> and the
  start error, and the promise resolves with the value that this call returns (undefined
  when the logger returns undefined), not with the running server.
\<close>

theorem start_failure_resolves:
  assumes "configure en cfg = Inr s0" and "registrationMan en s0 cfg = Inr s1"
    and "wiring s1 = (evs, Inr s2)" and "start en s2 = Inl err"
  shows "module_exports en cfg =
           (CallRegistrationMan # evs @ [CallStart, LoggerError ''Failed to start server'' err],
            Resolved (Value (logger_error en ''Failed to start server'' err)))"
  using assms by (simp add: module_exports_def)

theorem start_failure_resolves_witness:
  "configure env_start_fails (cfg0 eco_ui) = Inr srv0 \<and>
   registrationMan env_start_fails srv0 (cfg0 eco_ui) = Inr (srv1 plugins_all) \<and>
   (\<exists>s2. wiring (srv1 plugins_all) =
            ([CallHandler \<lparr>taskname = ''executor-queue-cleanup'', task = QueueCleanup\<rparr>],
             Inr s2) \<and>
          start env_start_fails s2 = Inl (Thrown (Str ''listen EADDRINUSE''))) \<and>
   module_exports env_start_fails (cfg0 eco_ui) =
     ([CallRegistrationMan,
       CallHandler \<lparr>taskname = ''executor-queue-cleanup'', task = QueueCleanup\<rparr>,
       CallStart,
       LoggerError ''Failed to start server'' (Thrown (Str ''listen EADDRINUSE''))],
      Resolved (Value (Obj [(''level'', Str ''info'')])))"
proof -
  have a: "configure env_start_fails (cfg0 eco_ui) = Inr srv0"
    unfolding env_start_fails_def by (rule configure_cfg0)
  have b: "registrationMan env_start_fails srv0 (cfg0 eco_ui) = Inr (srv1 plugins_all)"
    by (simp add: env_start_fails_def registrationMan_env0)
  from wiring_srv1_all obtain s2 where c: "wiring (srv1 plugins_all) =
      ([CallHandler \<lparr>taskname = ''executor-queue-cleanup'', task = QueueCleanup\<rparr>], Inr s2)"
    by blast
  have d: "start env_start_fails s2 = Inl (Thrown (Str ''listen EADDRINUSE''))"
    by (simp add: env_start_fails_def env0_def listen_failed_def)
  have e: "logger_error env_start_fails ''Failed to start server''
             (Thrown (Str ''listen EADDRINUSE'')) = Obj [(''level'', Str ''info'')]"
    by (simp add: env_start_fails_def env0_def)
  from start_failure_resolves [OF a b c d]
  have "module_exports env_start_fails (cfg0 eco_ui) =
        ([CallRegistrationMan,
          CallHandler \<lparr>taskname = ''executor-queue-cleanup'', task = QueueCleanup\<rparr>,
          CallStart,
          LoggerError ''Failed to start server'' (Thrown (Str ''listen EADDRINUSE''))],
         Resolved (Value (Obj [(''level'', Str ''info'')])))"
    unfolding e by simp
  with a b c d show ?thesis by blast
qed

text \<open>
  C2 as stated fails where the logger's \<^verbatim>\<open>error\<close> returns a value: the promise
  resolves with that value, not with undefined.
\<close>

theorem start_failure_not_undefined_counterexample:
  "module_exports env_start_fails (cfg0 eco_ui) =
     ([CallRegistrationMan,
       CallHandler \<lparr>taskname = ''executor-queue-cleanup'', task = QueueCleanup\<rparr>,
       CallStart,
       LoggerError ''Failed to start server'' (Thrown (Str ''listen EADDRINUSE''))],
      Resolved (Value (Obj [(''level'', Str ''info'')]))) \<and>
   snd (module_exports env_start_fails (cfg0 eco_ui)) \<noteq> Resolved (Value Undefined)"
  by (simp add: module_exports_def configure_def cors_def corsOrigins_def getProp_def
      bind_err_def cfg0_def eco_ui_def env0_def wiring_def wire_buildFactory_def
      wire_jobFactory_def register_shutdown_def heap0_def fac0_def obj0_def plugins_all_def
      shutdown0_def env_start_fails_def listen_failed_def Let_def)




text \<open>
  C8. Let the server after plugin registration have a build service and a job service,
  each with an executor, and a readable \<^verbatim>\<open>server.info\<close>. Then lines 135 to 147
  succeed, and afterwards the job service's \<^verbatim>\<open>tokenGen\<close> and its executor's
  \<^verbatim>\<open>userTokenGen\<close> hold the same closure. Called with (username, metadata, scmContext),
  with the auth capability present, it calls \<^verbatim>\<open>generateProfile\<close> with the scopes
  \<open>[user]\<close>, then \<^verbatim>\<open>generateToken\<close> with the profile as its only argument (no expiry),
  and returns the result of the latter.
\<close>

theorem user_tokenGen_wired:
  assumes "app.buildFactory (app s) = Some b" and "executor (heap s b) = Some xb"
    and "app.jobFactory (app s) = Some j" and "executor (heap s j) = Some xj"
    and "\<not> nullish (info s)"
    and "auth (plugins s) = Some a"
    and "generateProfile a [username, scmContext, Arr [Str ''user''], metadata] = Inr profile"
  shows "\<exists>s1 s2.
           wire_buildFactory s = Inr s1 \<and> wire_jobFactory s1 = Inr s2 \<and>
           wiring s = register_shutdown s2 \<and>
           app.jobFactory (app s2) = Some j \<and>
           tokenGen (heap s2 j) = Some UserTokenGen \<and>
           executor (heap s2 j) = Some xj \<and>
           userTokenGen (heap s2 xj) = Some UserTokenGen \<and>
           invoke_tokenGen s2 (app.jobFactory (app s2)) [username, metadata, scmContext] =
             ([CallGenerateProfile [username, scmContext, Arr [Str ''user''], metadata],
               CallGenerateToken [profile]],
              generateToken a [profile])"
proof -
  from wiring_services [OF assms(1-5)] obtain s1 s2 where
    w: "wire_buildFactory s = Inr s1" "wire_jobFactory s1 = Inr s2"
       "wiring s = register_shutdown s2" "app s2 = app s" "plugins s2 = plugins s"
       "tokenGen (heap s2 j) = Some UserTokenGen"
       "userTokenGen (heap s2 xj) = Some UserTokenGen"
       "\<forall>r. executor (heap s2 r) = executor (heap s r)"
    by blast
  from w(4) assms(3) have k: "app.jobFactory (app s2) = Some j" by simp
  from w(8) assms(4) have e: "executor (heap s2 j) = Some xj" by simp
  from w(5) assms(6) have p: "auth (plugins s2) = Some a" by simp
  have c: "invoke_tokenGen s2 (app.jobFactory (app s2)) [username, metadata, scmContext] =
             ([CallGenerateProfile [username, scmContext, Arr [Str ''user''], metadata],
               CallGenerateToken [profile]],
              generateToken a [profile])"
    using k w(6) p assms(7) by (simp add: invoke_tokenGen_def arg_def)
  from w(1,2,3) k w(6) e w(7) c show ?thesis by blast
qed

theorem user_tokenGen_wired_witness:
  "app.jobFactory (app (srv1 plugins_all)) = Some 2 \<and>
   executor (heap (srv1 plugins_all) 2) = Some 3 \<and>
   tokenGen (heap (srv1 plugins_all) 2) = None \<and>
   userTokenGen (heap (srv1 plugins_all) 3) = None \<and>
   (\<exists>s1 s2.
      wire_buildFactory (srv1 plugins_all) = Inr s1 \<and> wire_jobFactory s1 = Inr s2 \<and>
      wiring (srv1 plugins_all) = register_shutdown s2 \<and>
      app.jobFactory (app s2) = Some 2 \<and>
      tokenGen (heap s2 2) = Some UserTokenGen \<and>
      executor (heap s2 2) = Some 3 \<and>
      userTokenGen (heap s2 3) = Some UserTokenGen \<and>
      invoke_tokenGen s2 (app.jobFactory (app s2)) [Str ''alice'', Obj [], Str ''gh''] =
        ([CallGenerateProfile [Str ''alice'', Str ''gh'', Arr [Str ''user''], Obj []],
          CallGenerateToken
            [Obj [(''profile'', Arr [Str ''alice'', Str ''gh'', Arr [Str ''user''], Obj []])]]],
         Inr (Obj [(''token'',
                Arr [Obj [(''profile'',
                       Arr [Str ''alice'', Str ''gh'', Arr [Str ''user''], Obj []])]])])))"
proof -
  have p: "auth (plugins (srv1 plugins_all)) = Some auth0"
    by (simp add: srv1_services plugins_all_def)
  have g: "generateProfile auth0 [Str ''alice'', Str ''gh'', Arr [Str ''user''], Obj []] =
       Inr (Obj [(''profile'', Arr [Str ''alice'', Str ''gh'', Arr [Str ''user''], Obj []])])"
    by (simp add: auth0_def)
  have t: "generateToken auth0
       [Obj [(''profile'', Arr [Str ''alice'', Str ''gh'', Arr [Str ''user''], Obj []])]] =
     Inr (Obj [(''token'',
                  Arr [Obj [(''profile'',
                         Arr [Str ''alice'', Str ''gh'', Arr [Str ''user''], Obj []])]])])"
    by (simp add: auth0_def)
  note th = user_tokenGen_wired [OF srv1_services(1) srv1_services(3) srv1_services(2)
      srv1_services(4) srv1_services(5) p g]
  from th srv1_services(2) [of plugins_all] srv1_services(4) [of plugins_all]
    srv1_fresh(1) [of plugins_all 2] srv1_fresh(2) [of plugins_all 3]
  show ?thesis unfolding t by blast
qed



end
